theory Spec2Isabelle
  imports Main "HOL-Library.Word"
begin

section \<open>Cytomind: upload validation, job lifecycle and report retrieval\<close>

text \<open>
  A shallow embedding of the web tier of Cytomind: the client-side upload validator
  (\<^verbatim>\<open>handleFileChange\<close> of \<^verbatim>\<open>ImageUpload.jsx\<close>), the upload route
  (\<^verbatim>\<open>POST /api/upload\<close>), the status route (\<^verbatim>\<open>GET /api/jobs/[jobId]/status\<close>)
  and the report route (\<^verbatim>\<open>GET /api/reports/[jobId]\<close>).

  The two MongoDB collections are lists of documents in insertion order, the outcome of
  every call to the outside world (token verification, the UUID generator, the two
  \<^verbatim>\<open>fetch\<close> calls to the inference service) is an argument of the handler, and a
  handler returns its HTTP response together with the store it leaves behind.
\<close>

subsection \<open>JavaScript truthiness of the values the handlers test\<close>

text \<open>
  \<^verbatim>\<open>FormData.get\<close> yields \<^verbatim>\<open>null\<close> for a missing field, modelled as \<open>None\<close>.
  A string is falsy exactly when it is empty, \<^verbatim>\<open>null\<close> is falsy.
\<close>

definition truthy :: "string option \<Rightarrow> bool" where
  "truthy v = (case v of None \<Rightarrow> False | Some s \<Rightarrow> s \<noteq> [])"

text \<open>\<^verbatim>\<open>v || d\<close> on an optional string.\<close>

definition or_else :: "string option \<Rightarrow> string \<Rightarrow> string" where
  "or_else v d = (case v of None \<Rightarrow> d | Some s \<Rightarrow> if s = [] then d else s)"

text \<open>\<^verbatim>\<open>n || 0\<close> on a number.\<close>

definition or_zero :: "nat \<Rightarrow> nat" where
  "or_zero n = (if n = 0 then 0 else n)"

text \<open>Decimal rendering of a number inside a template literal.\<close>

fun show_nat :: "nat \<Rightarrow> string" where
  "show_nat n =
     (if n < 10 then [''0123456789'' ! n]
      else show_nat (n div 10) @ [''0123456789'' ! (n mod 10)])"

declare show_nat.simps [simp del]

subsection \<open>Upload Validator (\<^verbatim>\<open>handleFileChange\<close>)\<close>

text \<open>
  A browser \<^verbatim>\<open>File\<close>: its name, its MIME type and its size in bytes.
\<close>

record js_file =
  file_name :: string
  file_type :: string
  file_size :: nat

definition validTypes :: "string list" where
  "validTypes = [''image/jpeg'', ''image/jpg'', ''image/png'', ''image/tiff'']"

definition maxSize :: nat where
  "maxSize = 50 * 1024 * 1024"

text \<open>
  The component state the handler touches: the staged \<^verbatim>\<open>files\<close> and the single
  \<^verbatim>\<open>error\<close> string. The previews are filled by \<^verbatim>\<open>FileReader\<close> callbacks that run
  later and are not part of the handler's synchronous effect.
\<close>

record upload_state =
  files :: "js_file list"
  error :: string

definition invalid_type_message :: "js_file \<Rightarrow> string" where
  "invalid_type_message f = file_name f @ '': Invalid file type. Only JPG, PNG, or TIFF allowed.''"

definition too_large_message :: "js_file \<Rightarrow> string" where
  "too_large_message f = file_name f @ '': File size must be less than 50MB''"

text \<open>
  The \<^verbatim>\<open>for (const file of selectedFiles)\<close> loop: the accumulator \<^verbatim>\<open>validFiles\<close> and
  the state whose \<^verbatim>\<open>error\<close> each \<^verbatim>\<open>setError\<close> overwrites.
\<close>

fun validate_loop :: "js_file list \<Rightarrow> js_file list \<Rightarrow> upload_state \<Rightarrow> js_file list \<times> upload_state" where
  "validate_loop [] validFiles st = (validFiles, st)"
| "validate_loop (f # rest) validFiles st =
     (if file_type f \<notin> set validTypes
        then validate_loop rest validFiles (st\<lparr>error := invalid_type_message f\<rparr>)
      else if file_size f > maxSize
        then validate_loop rest validFiles (st\<lparr>error := too_large_message f\<rparr>)
      else validate_loop rest (validFiles @ [f]) st)"

definition handleFileChange :: "js_file list \<Rightarrow> upload_state \<Rightarrow> upload_state" where
  "handleFileChange selectedFiles st =
     (if length selectedFiles = 0 then st
      else
        (case validate_loop selectedFiles [] st of
           (validFiles, st1) \<Rightarrow>
             if length validFiles > 0
               then st1\<lparr>error := [], files := files st1 @ validFiles\<rparr>
             else st1))"

text \<open>The two predicates of the validator, and the reason a rejected file is given.\<close>

definition accepted :: "js_file \<Rightarrow> bool" where
  "accepted f = (file_type f \<in> set validTypes \<and> file_size f \<le> maxSize)"

definition rejection_reason :: "js_file \<Rightarrow> string" where
  "rejection_reason f =
     (if file_type f \<notin> set validTypes then invalid_type_message f else too_large_message f)"

subsection \<open>The store: Job and Patient collections\<close>

text \<open>
  Modelled from the spec: the Mongoose schemas (\<^verbatim>\<open>src/models/Job.js\<close>,
  \<^verbatim>\<open>src/models/Patient.js\<close>) are not among the sources. The fields are those the
  routes read and write; \<open>status\<close> takes the four values the specification lists, and
  \<open>createdAt\<close> is the creation timestamp the specification gives a Job.
  A field of a result that is not set is \<open>None\<close>; the values of the classification
  fields are kept as the text the inference service stored.
\<close>

datatype job_status = PENDING | PROCESSING | COMPLETED | FAILED

record job_result =
  classification :: "string option"
  primaryClass :: "string option"
  primaryClassFullName :: "string option"
  malignancyPercentage :: "string option"
  confidence :: "string option"
  topPredictions :: "string option"
  result_error :: "string option"

record job =
  jobId :: string
  patientId :: string
  labId :: string
  status :: job_status
  progress :: nat
  totalImages :: nat
  result :: "job_result option"
  createdAt :: nat

record patient =
  p_patientId :: string
  p_name :: "string option"
  p_age :: "string option"
  p_labId :: string

record store =
  jobs :: "job list"
  patients :: "patient list"

text \<open>\<^verbatim>\<open>Job.findOne({ jobId, labId })\<close>: the first document matching both fields.\<close>

definition Job_findOne :: "string \<Rightarrow> string \<Rightarrow> job list \<Rightarrow> job option" where
  "Job_findOne jid uid js = find (\<lambda>j. jobId j = jid \<and> labId j = uid) js"

text \<open>\<^verbatim>\<open>Job.create(doc)\<close>: one more document.\<close>

definition Job_create :: "job \<Rightarrow> job list \<Rightarrow> job list" where
  "Job_create j js = js @ [j]"

text \<open>
  \<^verbatim>\<open>Job.findOneAndUpdate({ jobId }, { status: 'FAILED', result: { error } })\<close>: the
  first document with that \<open>jobId\<close> gets the two fields set; without a match nothing
  changes (no upsert).
\<close>

fun Job_findOneAndUpdate :: "string \<Rightarrow> job_status \<Rightarrow> job_result \<Rightarrow> job list \<Rightarrow> job list" where
  "Job_findOneAndUpdate jid st res [] = []"
| "Job_findOneAndUpdate jid st res (j # js) =
     (if jobId j = jid then j\<lparr>status := st, result := Some res\<rparr> # js
      else j # Job_findOneAndUpdate jid st res js)"

text \<open>\<^verbatim>\<open>Patient.findOne({ patientId })\<close>.\<close>

definition Patient_findOne :: "string \<Rightarrow> patient list \<Rightarrow> patient option" where
  "Patient_findOne pid ps = find (\<lambda>p. p_patientId p = pid) ps"

text \<open>
  \<^verbatim>\<open>Patient.findOneAndUpdate({ patientId }, { patientId, name, age, labId }, { upsert: true })\<close>:
  the first document with that \<open>patientId\<close> gets the four fields set; without a match
  a new document with these fields is inserted.
\<close>

fun Patient_findOneAndUpdate ::
  "string \<Rightarrow> string option \<Rightarrow> string option \<Rightarrow> string \<Rightarrow> patient list \<Rightarrow> patient list" where
  "Patient_findOneAndUpdate pid nm ag uid [] =
     [\<lparr>p_patientId = pid, p_name = nm, p_age = ag, p_labId = uid\<rparr>]"
| "Patient_findOneAndUpdate pid nm ag uid (p # ps) =
     (if p_patientId p = pid
        then p\<lparr>p_patientId := pid, p_name := nm, p_age := ag, p_labId := uid\<rparr> # ps
      else p # Patient_findOneAndUpdate pid nm ag uid ps)"

subsection \<open>Requests, responses and the outside world\<close>

text \<open>
  \<^verbatim>\<open>verifyToken(request)\<close> (\<^verbatim>\<open>src/lib/auth\<close>, not among the sources) is an input of
  each handler: either \<^verbatim>\<open>{ error }\<close> or \<^verbatim>\<open>{ user: { userId } }\<close>.
\<close>

datatype auth_result = Auth_Error string | Auth_User string

text \<open>
  An entry of a multipart form is a string or a file. The text fields \<^verbatim>\<open>patientId\<close>,
  \<^verbatim>\<open>name\<close> and \<^verbatim>\<open>age\<close> are taken as strings (\<open>None\<close> when the field is missing).
\<close>

datatype form_value = Text string | Blob string

definition truthy_value :: "form_value option \<Rightarrow> bool" where
  "truthy_value v =
     (case v of None \<Rightarrow> False | Some (Text s) \<Rightarrow> s \<noteq> [] | Some (Blob b) \<Rightarrow> True)"

record upload_form =
  images :: "form_value list"
  image :: "form_value option"
  f_patientId :: "string option"
  f_name :: "string option"
  f_age :: "string option"

type_synonym form_data = "(string \<times> form_value) list"

text \<open>
  The value of \<^verbatim>\<open>errorData.detail\<close> in the body of an error response, as far as the
  route observes it: its truthiness under \<^verbatim>\<open>||\<close> and the \<^verbatim>\<open>message\<close> of the error that
  \<^verbatim>\<open>throw new Error(detail)\<close> raises, which is \<^verbatim>\<open>String(detail)\<close>.
  \<^item> \<open>Js_Undefined\<close>: the body has no \<^verbatim>\<open>detail\<close> (or is not an object at all);
  \<^item> \<open>Js_Number t\<close>: a number, given by its rendering \<open>t = String(n)\<close>; the only falsy
    JSON number is zero, whose rendering is \<^verbatim>\<open>0\<close>;
  \<^item> \<open>Js_Object t\<close>: an object or an array, always truthy, given by the message \<open>t\<close> that
    an \<^verbatim>\<open>Error\<close> built from it carries: \<^verbatim>\<open>[object Object]\<close> for a plain object, the
    comma-joined elements for an array (FastAPI's validation errors are an array of
    objects), and the message of the \<^verbatim>\<open>TypeError\<close> when the conversion itself throws.
\<close>

datatype js_value =
    Js_Undefined
  | Js_Null
  | Js_Bool bool
  | Js_Number string
  | Js_String string
  | Js_Object string

fun js_truthy :: "js_value \<Rightarrow> bool" where
  "js_truthy Js_Undefined = False"
| "js_truthy Js_Null = False"
| "js_truthy (Js_Bool b) = b"
| "js_truthy (Js_Number t) = (t \<noteq> ''0'')"
| "js_truthy (Js_String s) = (s \<noteq> [])"
| "js_truthy (Js_Object t) = True"

text \<open>\<^verbatim>\<open>a || b\<close>.\<close>

definition js_or :: "js_value \<Rightarrow> js_value \<Rightarrow> js_value" where
  "js_or a b = (if js_truthy a then a else b)"

text \<open>The \<^verbatim>\<open>message\<close> of \<^verbatim>\<open>new Error(v)\<close>.\<close>

fun js_error_message :: "js_value \<Rightarrow> string" where
  "js_error_message Js_Undefined = []"
| "js_error_message Js_Null = ''null''"
| "js_error_message (Js_Bool b) = (if b then ''true'' else ''false'')"
| "js_error_message (Js_Number t) = t"
| "js_error_message (Js_String s) = s"
| "js_error_message (Js_Object t) = t"

text \<open>
  The outcome of \<^verbatim>\<open>fetch(.../api/analyze)\<close>: the promise rejects with a message (the
  service is unreachable), or resolves with \<^verbatim>\<open>ok\<close>, or resolves with a non-2xx
  response whose body either cannot be read (\<^verbatim>\<open>json()\<close> throws, or the body is
  \<^verbatim>\<open>null\<close> and the access to \<^verbatim>\<open>detail\<close> throws, each with a message) or is read, with
  the value of its \<^verbatim>\<open>detail\<close>.
\<close>

datatype analyze_body = Body_Throws string | Body_Json js_value

datatype analyze_result = Analyze_Rejected string | Analyze_Ok | Analyze_Not_Ok analyze_body

text \<open>
  The outcome of \<^verbatim>\<open>fetch(.../api/reports/{jobId}/pdf)\<close>: rejected, a non-2xx response
  (with the \<^verbatim>\<open>detail\<close> its body may carry, which the handler never reads), a 2xx
  response whose body cannot be read, or a 2xx response with its bytes.
\<close>

datatype pdf_result =
    Pdf_Rejected string
  | Pdf_Not_Ok "string option"
  | Pdf_Read_Throws string
  | Pdf_Bytes "8 word list"

record report =
  r_jobId :: string
  r_patientId :: string
  r_patientName :: string
  r_age :: string
  r_date :: nat
  r_classification :: "string option"
  r_primaryClass :: "string option"
  r_primaryClassFullName :: "string option"
  r_malignancyPercentage :: "string option"
  r_confidence :: "string option"
  r_topPredictions :: "string option"

record status_response =
  s_jobId :: string
  s_status :: job_status
  s_progress :: nat
  s_report :: "report option"
  s_message :: "string option"

text \<open>
  A response: the HTTP status, the headers the handler sets itself, and the body. The
  JSON bodies are \<^verbatim>\<open>{ message }\<close>, \<^verbatim>\<open>{ message, error }\<close>, the upload receipt
  \<^verbatim>\<open>{ jobId, status, totalImages, message }\<close> and the status object.
\<close>

datatype body =
    Message string
  | Message_Error string string
  | Upload_Receipt string job_status nat string
  | Status status_response
  | Bytes "8 word list"

datatype response = Response nat "(string \<times> string) list" body

fun http_status :: "response \<Rightarrow> nat" where
  "http_status (Response c h b) = c"

text \<open>The \<^verbatim>\<open>message\<close> and \<^verbatim>\<open>error\<close> properties of a JSON body.\<close>

fun message_of :: "response \<Rightarrow> string option" where
  "message_of (Response c h (Message m)) = Some m"
| "message_of (Response c h (Message_Error m e)) = Some m"
| "message_of (Response c h (Upload_Receipt j s n m)) = Some m"
| "message_of (Response c h (Status r)) = s_message r"
| "message_of (Response c h (Bytes bs)) = None"

fun error_of :: "response \<Rightarrow> string option" where
  "error_of (Response c h (Message_Error m e)) = Some e"
| "error_of r = None"

text \<open>\<^verbatim>\<open>process.env.ML_BACKEND_URL || 'http://127.0.0.1:8000'\<close>.\<close>

definition ML_BACKEND_URL :: "string option \<Rightarrow> string" where
  "ML_BACKEND_URL env = or_else env ''http://127.0.0.1:8000''"

subsection \<open>Upload route (\<^verbatim>\<open>POST /api/upload\<close>)\<close>

text \<open>
  \<^verbatim>\<open>images.length > 0 ? images : (singleImage ? [singleImage] : [])\<close>, where
  \<^verbatim>\<open>images = formData.getAll('images')\<close> and \<^verbatim>\<open>singleImage = formData.get('image')\<close>.
\<close>

definition allImages :: "upload_form \<Rightarrow> form_value list" where
  "allImages form =
     (if length (images form) > 0 then images form
      else (case image form of
              None \<Rightarrow> []
            | Some singleImage \<Rightarrow> if truthy_value (Some singleImage) then [singleImage] else []))"

text \<open>The multipart body forwarded to the inference service.\<close>

definition mlFormData ::
  "form_value list \<Rightarrow> string \<Rightarrow> string \<Rightarrow> string option \<Rightarrow> string option \<Rightarrow> string \<Rightarrow> form_data" where
  "mlFormData imgs jid pid nm ag uid =
     map (\<lambda>img. (''images'', img)) imgs @
     [(''job_id'', Text jid),
      (''patient_id'', Text pid),
      (''patient_name'', Text (or_else nm [])),
      (''patient_age'', Text (or_else ag ''0'')),
      (''lab_id'', Text uid)]"

text \<open>
  What the \<^verbatim>\<open>try\<close> block throws, if anything: the rejection of \<^verbatim>\<open>fetch\<close>, the
  failure to read the body of a non-2xx response, or
  \<^verbatim>\<open>new Error(errorData.detail || 'ML backend error')\<close>. \<open>None\<close>: nothing is thrown.
\<close>

fun forward_throws :: "analyze_result \<Rightarrow> string option" where
  "forward_throws (Analyze_Rejected m) = Some m"
| "forward_throws Analyze_Ok = None"
| "forward_throws (Analyze_Not_Ok (Body_Throws m)) = Some m"
| "forward_throws (Analyze_Not_Ok (Body_Json detail)) =
     Some (js_error_message (js_or detail (Js_String ''ML backend error'')))"

text \<open>
  The handler. \<open>uuid\<close> is the value of \<^verbatim>\<open>randomUUID()\<close>, \<open>now\<close> the clock at
  \<^verbatim>\<open>Job.create\<close>, \<open>env\<close> the environment variable and \<open>fetch\<close> the inference service
  as seen through \<^verbatim>\<open>fetch\<close>. The guard \<^verbatim>\<open>!patientId\<close> holds for a missing and for
  an empty \<^verbatim>\<open>patientId\<close>.
\<close>

definition POST_upload ::
  "auth_result \<Rightarrow> upload_form \<Rightarrow> string \<Rightarrow> nat \<Rightarrow> string option \<Rightarrow>
   (string \<Rightarrow> form_data \<Rightarrow> analyze_result) \<Rightarrow> store \<Rightarrow> response \<times> store" where
  "POST_upload auth form uuid now env fetch s =
     (case auth of
        Auth_Error e \<Rightarrow> (Response 401 [] (Message e), s)
      | Auth_User userId \<Rightarrow>
          let imgs = allImages form in
          (case f_patientId form of
             None \<Rightarrow>
               (Response 400 [] (Message ''At least one image and patient ID are required''), s)
           | Some pid \<Rightarrow>
               if length imgs = 0 \<or> \<not> truthy (Some pid)
                 then (Response 400 [] (Message ''At least one image and patient ID are required''), s)
               else
                 let jid = uuid;
                     s1 = s\<lparr>patients :=
                            Patient_findOneAndUpdate pid (f_name form) (f_age form) userId (patients s)\<rparr>;
                     s2 = s1\<lparr>jobs :=
                            Job_create
                              \<lparr>jobId = jid, patientId = pid, labId = userId, status = PENDING,
                               progress = 0, totalImages = length imgs, result = None,
                               createdAt = now\<rparr>
                              (jobs s1)\<rparr>;
                     mlResponse =
                       fetch (ML_BACKEND_URL env @ ''/api/analyze'')
                         (mlFormData imgs jid pid (f_name form) (f_age form) userId)
                 in (case forward_throws mlResponse of
                       None \<Rightarrow>
                         (Response 200 []
                            (Upload_Receipt jid PENDING (length imgs)
                               (show_nat (length imgs) @ '' image(s) uploaded, ML processing started'')),
                          s2)
                     | Some error_message \<Rightarrow>
                         (Response 500 []
                            (Message_Error ''Failed to start ML processing'' error_message),
                          s2\<lparr>jobs :=
                               Job_findOneAndUpdate jid FAILED
                                 \<lparr>classification = None, primaryClass = None,
                                  primaryClassFullName = None, malignancyPercentage = None,
                                  confidence = None, topPredictions = None,
                                  result_error = Some error_message\<rparr>
                                 (jobs s2)\<rparr>))))"

text \<open>A sequence of upload requests, each handled on the store the previous one left.\<close>

record upload_request =
  rq_auth :: auth_result
  rq_form :: upload_form
  rq_uuid :: string
  rq_now :: nat
  rq_env :: "string option"
  rq_fetch :: "string \<Rightarrow> form_data \<Rightarrow> analyze_result"

definition handle_upload :: "upload_request \<Rightarrow> store \<Rightarrow> response \<times> store" where
  "handle_upload rq s =
     POST_upload (rq_auth rq) (rq_form rq) (rq_uuid rq) (rq_now rq) (rq_env rq) (rq_fetch rq) s"

fun run_uploads :: "upload_request list \<Rightarrow> store \<Rightarrow> store" where
  "run_uploads [] s = s"
| "run_uploads (rq # rqs) s = run_uploads rqs (snd (handle_upload rq s))"

text \<open>An upload that passes the token check and the validation guard.\<close>

definition passes_validation :: "upload_request \<Rightarrow> bool" where
  "passes_validation rq =
     ((case rq_auth rq of Auth_Error e \<Rightarrow> False | Auth_User u \<Rightarrow> True) \<and>
      allImages (rq_form rq) \<noteq> [] \<and> truthy (f_patientId (rq_form rq)))"

text \<open>
  Names for the two documents the upload route writes: the Job that \<^verbatim>\<open>Job.create\<close>
  inserts, and the \<^verbatim>\<open>result\<close> that the \<^verbatim>\<open>catch\<close> block stores.
\<close>

definition pending_job :: "string \<Rightarrow> string \<Rightarrow> string \<Rightarrow> nat \<Rightarrow> nat \<Rightarrow> job" where
  "pending_job jid pid uid n now =
     \<lparr>jobId = jid, patientId = pid, labId = uid, status = PENDING, progress = 0,
      totalImages = n, result = None, createdAt = now\<rparr>"

definition error_result :: "string \<Rightarrow> job_result" where
  "error_result e =
     \<lparr>classification = None, primaryClass = None, primaryClassFullName = None,
      malignancyPercentage = None, confidence = None, topPredictions = None,
      result_error = Some e\<rparr>"

subsection \<open>Status route (\<^verbatim>\<open>GET /api/jobs/[jobId]/status\<close>)\<close>

definition GET_status :: "auth_result \<Rightarrow> string \<Rightarrow> store \<Rightarrow> response" where
  "GET_status auth jid s =
     (case auth of
        Auth_Error e \<Rightarrow> Response 401 [] (Message e)
      | Auth_User userId \<Rightarrow>
          (case Job_findOne jid userId (jobs s) of
             None \<Rightarrow> Response 404 [] (Message ''Job not found or access denied'')
           | Some j \<Rightarrow>
               let response =
                     \<lparr>s_jobId = jobId j, s_status = status j, s_progress = or_zero (progress j),
                      s_report = None, s_message = None\<rparr>;
                   response1 =
                     (case result j of
                        None \<Rightarrow> response
                      | Some res \<Rightarrow>
                          if status j = COMPLETED then
                            let patient = Patient_findOne (patientId j) (patients s) in
                            response\<lparr>s_report := Some
                              \<lparr>r_jobId = jobId j,
                               r_patientId = patientId j,
                               r_patientName = or_else (Option.bind patient p_name) ''N/A'',
                               r_age = or_else (Option.bind patient p_age) ''N/A'',
                               r_date = createdAt j,
                               r_classification = classification res,
                               r_primaryClass = primaryClass res,
                               r_primaryClassFullName = primaryClassFullName res,
                               r_malignancyPercentage = malignancyPercentage res,
                               r_confidence = confidence res,
                               r_topPredictions = topPredictions res\<rparr>\<rparr>
                          else response);
                   response2 =
                     (if status j = FAILED \<and> truthy (Option.bind (result j) result_error)
                        then response1\<lparr>s_message := Option.bind (result j) result_error\<rparr>
                      else response1)
               in Response 200 [] (Status response2)))"

subsection \<open>Report route (\<^verbatim>\<open>GET /api/reports/[jobId]\<close>)\<close>

text \<open>
  The \<^verbatim>\<open>try\<close> block: \<open>Inl\<close> is the message of what it throws (the rejection of
  \<^verbatim>\<open>fetch\<close>, \<^verbatim>\<open>'Failed to fetch PDF from ML backend'\<close> on a non-2xx response, the
  failure of \<^verbatim>\<open>arrayBuffer()\<close>), \<open>Inr\<close> the bytes read. Whatever is thrown, the
  \<^verbatim>\<open>catch\<close> block answers the same 500.
\<close>

fun try_fetch_pdf :: "pdf_result \<Rightarrow> string + 8 word list" where
  "try_fetch_pdf (Pdf_Rejected m) = Inl m"
| "try_fetch_pdf (Pdf_Not_Ok detail) = Inl ''Failed to fetch PDF from ML backend''"
| "try_fetch_pdf (Pdf_Read_Throws m) = Inl m"
| "try_fetch_pdf (Pdf_Bytes pdfBuffer) = Inr pdfBuffer"

text \<open>
  \<^verbatim>\<open>new NextResponse(pdfBuffer, { headers })\<close> stands inside the \<^verbatim>\<open>try\<close> block, and
  \<^verbatim>\<open>Headers\<close> throws a \<^verbatim>\<open>TypeError\<close> on a value that is not a legal header value: one
  that contains NUL, LF or CR, or a code point above U+00FF. A string is its UTF-8 byte
  sequence here, in which exactly the code points above U+00FF start with a byte of
  0xC4 or more. (Leading and trailing blanks are stripped, not refused.)
\<close>

definition legal_header_value :: "string \<Rightarrow> bool" where
  "legal_header_value v =
     list_all (\<lambda>c. c \<noteq> CHR 0x00 \<and> c \<noteq> CHR 0x0A \<and> c \<noteq> CHR 0x0D \<and> of_char c < (196::nat)) v"

definition GET_report ::
  "auth_result \<Rightarrow> string \<Rightarrow> string option \<Rightarrow> (string \<Rightarrow> pdf_result) \<Rightarrow> store \<Rightarrow> response" where
  "GET_report auth jid env fetch s =
     (case auth of
        Auth_Error e \<Rightarrow> Response 401 [] (Message e)
      | Auth_User userId \<Rightarrow>
          (case Job_findOne jid userId (jobs s) of
             None \<Rightarrow> Response 404 [] (Message ''Report not found or access denied'')
           | Some j \<Rightarrow>
               if status j \<noteq> COMPLETED
                 then Response 400 [] (Message ''Report not ready yet'')
               else
                 (case try_fetch_pdf (fetch (ML_BACKEND_URL env @ ''/api/reports/'' @ jid @ ''/pdf'')) of
                    Inr pdfBuffer \<Rightarrow>
                      if legal_header_value
                           (''attachment; filename=cytomind_report_'' @ jid @ ''.pdf'')
                        then
                          Response 200
                            [(''Content-Type'', ''application/pdf''),
                             (''Content-Disposition'',
                              ''attachment; filename=cytomind_report_'' @ jid @ ''.pdf'')]
                            (Bytes pdfBuffer)
                      else Response 500 [] (Message ''Failed to download report'')
                  | Inl error_message \<Rightarrow>
                      Response 500 [] (Message ''Failed to download report''))))"

section \<open>Auxiliary facts\<close>

subsection \<open>Facts about the validator loop\<close>

lemma validate_loop_valid:
  "fst (validate_loop fs acc st) = acc @ filter accepted fs"
  by (induction fs arbitrary: acc st) (auto simp: accepted_def)

lemma validate_loop_files:
  "files (snd (validate_loop fs acc st)) = files st"
  by (induction fs arbitrary: acc st) auto

lemma validate_loop_error:
  "error (snd (validate_loop fs acc st)) =
     (case filter (\<lambda>f. \<not> accepted f) fs of
        [] \<Rightarrow> error st
      | r # rs \<Rightarrow> rejection_reason (last (r # rs)))"
proof (induction fs arbitrary: acc st)
  case Nil
  show ?case by simp
next
  case (Cons f fs)
  show ?case
  proof (cases "accepted f")
    case True
    then show ?thesis
      using Cons.IH by (simp add: accepted_def)
  next
    case False
    then show ?thesis
      using Cons.IH
      by (auto simp: accepted_def rejection_reason_def split: list.splits)
  qed
qed

lemma accepted_explicit:
  "accepted f \<longleftrightarrow>
     file_type f \<in> {''image/jpeg'', ''image/jpg'', ''image/png'', ''image/tiff''} \<and>
     file_size f \<le> 52428800"
  by (simp add: accepted_def validTypes_def maxSize_def)

subsection \<open>Facts about the store operations\<close>

lemma Job_findOneAndUpdate_fresh:
  "jid \<notin> jobId ` set js \<Longrightarrow>
   Job_findOneAndUpdate jid st res (js @ [j]) =
     js @ Job_findOneAndUpdate jid st res [j]"
  by (induction js) auto

lemma Job_findOne_fresh:
  "jid \<notin> jobId ` set js \<Longrightarrow> Job_findOne jid uid (js @ [j]) = Job_findOne jid uid [j]"
  by (induction js) (auto simp: Job_findOne_def)

lemma Job_findOne_None:
  "(Job_findOne jid uid js = None) = (\<forall>j \<in> set js. \<not> (jobId j = jid \<and> labId j = uid))"
  by (auto simp: Job_findOne_def find_None_iff)

lemma upsert_ids:
  "set (map p_patientId (Patient_findOneAndUpdate pid nm ag uid ps)) =
     insert pid (set (map p_patientId ps))"
  by (induction ps) auto

lemma upsert_distinct:
  "distinct (map p_patientId ps) \<Longrightarrow>
   distinct (map p_patientId (Patient_findOneAndUpdate pid nm ag uid ps))"
proof (induction ps)
  case Nil
  show ?case by simp
next
  case (Cons p ps)
  then show ?case
    using upsert_ids [of pid nm ag uid ps] by auto
qed

lemma upsert_filter:
  "distinct (map p_patientId ps) \<Longrightarrow>
   filter (\<lambda>p. p_patientId p = pid) (Patient_findOneAndUpdate pid nm ag uid ps) =
     [\<lparr>p_patientId = pid, p_name = nm, p_age = ag, p_labId = uid\<rparr>]"
proof (induction ps)
  case Nil
  show ?case by simp
next
  case (Cons p ps)
  show ?case
  proof (cases "p_patientId p = pid")
    case True
    with Cons.prems have "pid \<notin> p_patientId ` set ps"
      by simp
    then have "filter (\<lambda>q. p_patientId q = pid) ps = []"
      by (auto simp: filter_empty_conv)
    with True show ?thesis by simp
  next
    case False
    with Cons show ?thesis by simp
  qed
qed

lemma upsert_find:
  "Patient_findOne pid (Patient_findOneAndUpdate pid nm ag uid ps) =
     Some \<lparr>p_patientId = pid, p_name = nm, p_age = ag, p_labId = uid\<rparr>"
  by (induction ps) (auto simp: Patient_findOne_def)

lemma upsert_others:
  "filter (\<lambda>p. p_patientId p \<noteq> pid) (Patient_findOneAndUpdate pid nm ag uid ps) =
     filter (\<lambda>p. p_patientId p \<noteq> pid) ps"
  by (induction ps) auto

lemma upsert_length:
  "length (Patient_findOneAndUpdate pid nm ag uid ps) =
     (if pid \<in> p_patientId ` set ps then length ps else length ps + 1)"
  by (induction ps) auto

subsection \<open>Facts about the upload route\<close>

lemma forward_throws_Some:
  "r \<noteq> Analyze_Ok \<Longrightarrow> \<exists>e. forward_throws r = Some e"
  by (cases r rule: forward_throws.cases) simp_all

lemma POST_upload_accepted:
  assumes "allImages form \<noteq> []" and "f_patientId form = Some pid" and "pid \<noteq> []"
    and "forward_throws (fetch (ML_BACKEND_URL env @ ''/api/analyze'')
           (mlFormData (allImages form) uuid pid (f_name form) (f_age form) uid)) = None"
  shows "POST_upload (Auth_User uid) form uuid now env fetch s =
     (Response 200 []
        (Upload_Receipt uuid PENDING (length (allImages form))
           (show_nat (length (allImages form)) @ '' image(s) uploaded, ML processing started'')),
      \<lparr>jobs = jobs s @ [pending_job uuid pid uid (length (allImages form)) now],
       patients = Patient_findOneAndUpdate pid (f_name form) (f_age form) uid (patients s)\<rparr>)"
  using assms
  by (simp add: POST_upload_def Let_def truthy_def Job_create_def pending_job_def)

lemma POST_upload_failed:
  assumes "allImages form \<noteq> []" and "f_patientId form = Some pid" and "pid \<noteq> []"
    and "forward_throws (fetch (ML_BACKEND_URL env @ ''/api/analyze'')
           (mlFormData (allImages form) uuid pid (f_name form) (f_age form) uid)) = Some e"
  shows "POST_upload (Auth_User uid) form uuid now env fetch s =
     (Response 500 [] (Message_Error ''Failed to start ML processing'' e),
      \<lparr>jobs = Job_findOneAndUpdate uuid FAILED (error_result e)
                (jobs s @ [pending_job uuid pid uid (length (allImages form)) now]),
       patients = Patient_findOneAndUpdate pid (f_name form) (f_age form) uid (patients s)\<rparr>)"
  using assms
  by (simp add: POST_upload_def Let_def truthy_def Job_create_def pending_job_def error_result_def)

lemma POST_upload_patients:
  assumes "allImages form \<noteq> []" and "f_patientId form = Some pid" and "pid \<noteq> []"
  shows "patients (snd (POST_upload (Auth_User uid) form uuid now env fetch s)) =
     Patient_findOneAndUpdate pid (f_name form) (f_age form) uid (patients s)"
  using assms
  by (simp add: POST_upload_def Let_def truthy_def split: option.splits)

lemma handle_upload_patients:
  assumes "passes_validation rq" and "f_patientId (rq_form rq) = Some pid"
    and "rq_auth rq = Auth_User uid"
  shows "patients (snd (handle_upload rq s)) =
     Patient_findOneAndUpdate pid (f_name (rq_form rq)) (f_age (rq_form rq)) uid (patients s)"
proof -
  have "allImages (rq_form rq) \<noteq> []" "pid \<noteq> []"
    using assms by (simp_all add: passes_validation_def truthy_def)
  then show ?thesis
    using assms(2,3) by (simp add: handle_upload_def POST_upload_patients)
qed

lemma passes_validation_user:
  "passes_validation rq \<Longrightarrow> \<exists>uid. rq_auth rq = Auth_User uid"
  by (cases "rq_auth rq") (simp_all add: passes_validation_def)

lemma allImages_count:
  assumes "images form \<noteq> [] \<or> truthy_value (image form)"
  shows "allImages form \<noteq> []"
    and "length (allImages form) = (if images form = [] then 1 else length (images form))"
  using assms
  by (auto simp: allImages_def truthy_value_def split: option.splits)

lemma legal_header_value_append:
  "legal_header_value (a @ b) \<longleftrightarrow> legal_header_value a \<and> legal_header_value b"
  by (simp add: legal_header_value_def)

lemma uuid_char_legal:
  assumes "c \<in> set ''0123456789abcdef-''"
  shows "c \<noteq> CHR 0x00 \<and> c \<noteq> CHR 0x0A \<and> c \<noteq> CHR 0x0D \<and> of_char c < (196::nat)"
  using assms by auto

lemma uuid_disposition_legal:
  assumes "set jid \<subseteq> set ''0123456789abcdef-''"
  shows "legal_header_value (''attachment; filename=cytomind_report_'' @ jid @ ''.pdf'')"
proof -
  have "legal_header_value jid"
    unfolding legal_header_value_def list_all_iff
    using assms uuid_char_legal by blast
  moreover have "legal_header_value ''attachment; filename=cytomind_report_''"
    by (simp add: legal_header_value_def)
  moreover have "legal_header_value ''.pdf''"
    by (simp add: legal_header_value_def)
  ultimately show ?thesis
    by (simp only: legal_header_value_append simp_thms)
qed

lemma POST_upload_valid_shape:
  assumes "allImages form \<noteq> []"
      and "f_patientId form = Some pid"
      and "pid \<noteq> []"
      and "uuid \<notin> jobId ` set (jobs s)"
  shows
    "(fetch (ML_BACKEND_URL env @ ''/api/analyze'')
        (mlFormData (allImages form) uuid pid (f_name form) (f_age form) uid) = Analyze_Ok \<longrightarrow>
        fst (POST_upload (Auth_User uid) form uuid now env fetch s) =
          Response 200 []
            (Upload_Receipt uuid PENDING (length (allImages form))
               (show_nat (length (allImages form)) @ '' image(s) uploaded, ML processing started'')) \<and>
        jobs (snd (POST_upload (Auth_User uid) form uuid now env fetch s)) =
          jobs s @
          [\<lparr>jobId = uuid, patientId = pid, labId = uid, status = PENDING, progress = 0,
            totalImages = length (allImages form), result = None, createdAt = now\<rparr>]) \<and>
     length (jobs (snd (POST_upload (Auth_User uid) form uuid now env fetch s))) =
       length (jobs s) + 1 \<and>
     butlast (jobs (snd (POST_upload (Auth_User uid) form uuid now env fetch s))) = jobs s \<and>
     jobId (last (jobs (snd (POST_upload (Auth_User uid) form uuid now env fetch s)))) = uuid \<and>
     progress (last (jobs (snd (POST_upload (Auth_User uid) form uuid now env fetch s)))) = 0 \<and>
     totalImages (last (jobs (snd (POST_upload (Auth_User uid) form uuid now env fetch s)))) =
       length (allImages form) \<and>
     Patient_findOne pid (patients (snd (POST_upload (Auth_User uid) form uuid now env fetch s))) =
       Some \<lparr>p_patientId = pid, p_name = f_name form, p_age = f_age form, p_labId = uid\<rparr> \<and>
     filter (\<lambda>p. p_patientId p \<noteq> pid)
         (patients (snd (POST_upload (Auth_User uid) form uuid now env fetch s))) =
       filter (\<lambda>p. p_patientId p \<noteq> pid) (patients s) \<and>
     length (patients (snd (POST_upload (Auth_User uid) form uuid now env fetch s))) =
       (if pid \<in> p_patientId ` set (patients s) then length (patients s) else length (patients s) + 1)"
proof -
  let ?r = "fetch (ML_BACKEND_URL env @ ''/api/analyze'')
        (mlFormData (allImages form) uuid pid (f_name form) (f_age form) uid)"
  let ?R = "POST_upload (Auth_User uid) form uuid now env fetch s"
  have pats: "patients (snd ?R) =
      Patient_findOneAndUpdate pid (f_name form) (f_age form) uid (patients s)"
    using assms(1-3) by (rule POST_upload_patients)
  have ok: "?r = Analyze_Ok \<Longrightarrow>
      ?R = (Response 200 []
        (Upload_Receipt uuid PENDING (length (allImages form))
           (show_nat (length (allImages form)) @ '' image(s) uploaded, ML processing started'')),
      \<lparr>jobs = jobs s @ [pending_job uuid pid uid (length (allImages form)) now],
       patients = Patient_findOneAndUpdate pid (f_name form) (f_age form) uid (patients s)\<rparr>)"
    using POST_upload_accepted [where fetch = fetch and env = env and uuid = uuid and uid = uid
            and form = form and pid = pid and now = now and s = s] assms(1-3)
    by simp
  have bad: "?r \<noteq> Analyze_Ok \<Longrightarrow> \<exists>e.
      jobs (snd ?R) =
        jobs s @ [pending_job uuid pid uid (length (allImages form)) now
                    \<lparr>status := FAILED, result := Some (error_result e)\<rparr>]"
  proof -
    assume "?r \<noteq> Analyze_Ok"
    then obtain e where e: "forward_throws ?r = Some e"
      using forward_throws_Some by blast
    show ?thesis
      using POST_upload_failed [where fetch = fetch and env = env and uuid = uuid and uid = uid
            and form = form and pid = pid and e = e and now = now and s = s]
        assms(1-3) e Job_findOneAndUpdate_fresh [OF assms(4)]
      by (auto simp: pending_job_def)
  qed
  have created: "\<exists>st res. jobs (snd ?R) =
      jobs s @ [pending_job uuid pid uid (length (allImages form)) now \<lparr>status := st, result := res\<rparr>]"
  proof (cases "?r = Analyze_Ok")
    case True
    have "pending_job uuid pid uid (length (allImages form)) now
           \<lparr>status := PENDING, result := None\<rparr> =
          pending_job uuid pid uid (length (allImages form)) now"
      by (simp add: pending_job_def)
    then show ?thesis using ok [OF True] by (metis snd_conv store.select_convs(1))
  next
    case False
    then show ?thesis using bad by blast
  qed
  then obtain st res where js: "jobs (snd ?R) =
      jobs s @ [pending_job uuid pid uid (length (allImages form)) now \<lparr>status := st, result := res\<rparr>]"
    by blast
  have shape: "length (jobs (snd ?R)) = length (jobs s) + 1 \<and>
     butlast (jobs (snd ?R)) = jobs s \<and>
     jobId (last (jobs (snd ?R))) = uuid \<and>
     progress (last (jobs (snd ?R))) = 0 \<and>
     totalImages (last (jobs (snd ?R))) = length (allImages form)"
    by (simp add: js pending_job_def)
  have accepted: "?r = Analyze_Ok \<longrightarrow>
        fst ?R =
          Response 200 []
            (Upload_Receipt uuid PENDING (length (allImages form))
               (show_nat (length (allImages form)) @ '' image(s) uploaded, ML processing started'')) \<and>
        jobs (snd ?R) =
          jobs s @
          [\<lparr>jobId = uuid, patientId = pid, labId = uid, status = PENDING, progress = 0,
            totalImages = length (allImages form), result = None, createdAt = now\<rparr>]"
    using ok by (simp add: pending_job_def)
  show ?thesis
    using accepted shape
    by (simp only: pats upsert_find upsert_others upsert_length simp_thms)
qed

section \<open>The Upload Validator\<close>

text \<open>
  C7. For every selected file, the Upload Validator accepts it if and only if its MIME
  type is one of \<^verbatim>\<open>image/jpeg\<close>, \<^verbatim>\<open>image/jpg\<close>, \<^verbatim>\<open>image/png\<close>, \<^verbatim>\<open>image/tiff\<close>
  and its size does not exceed 50 MiB (52428800 bytes): the files staged after a
  selection are the files staged before, followed by exactly the selected files that
  pass both predicates, in their order. A file failing either predicate is not added.
\<close>

theorem validator_accepts_iff_type_and_size:
  "files (handleFileChange selectedFiles st) =
     files st @
     filter (\<lambda>f. file_type f \<in> {''image/jpeg'', ''image/jpg'', ''image/png'', ''image/tiff''} \<and>
                 file_size f \<le> 52428800) selectedFiles"
proof -
  have eq: "(\<lambda>f. file_type f \<in> {''image/jpeg'', ''image/jpg'', ''image/png'', ''image/tiff''} \<and>
                 file_size f \<le> 52428800) = accepted"
    by (rule ext) (simp add: accepted_explicit)
  obtain vs st1 where loop: "validate_loop selectedFiles [] st = (vs, st1)"
    by (cases "validate_loop selectedFiles [] st")
  have vs: "vs = filter accepted selectedFiles"
    using validate_loop_valid [of selectedFiles "[]" st] loop by simp
  have fs: "files st1 = files st"
    using validate_loop_files [of selectedFiles "[]" st] loop by simp
  show ?thesis
    unfolding eq
    by (cases "selectedFiles = []") (simp_all add: handleFileChange_def loop vs fs)
qed

text \<open>
  A selection of four files: a GIF, a PNG of exactly 50 MiB, a JPEG one byte larger,
  and a small TIFF. The PNG and the TIFF are staged.
\<close>

theorem validator_accepts_iff_type_and_size_witness:
  "files (handleFileChange
       [\<lparr>file_name = ''scan.gif'', file_type = ''image/gif'', file_size = 1024\<rparr>,
        \<lparr>file_name = ''cell.png'', file_type = ''image/png'', file_size = 52428800\<rparr>,
        \<lparr>file_name = ''big.jpg'', file_type = ''image/jpeg'', file_size = 52428801\<rparr>,
        \<lparr>file_name = ''smear.tiff'', file_type = ''image/tiff'', file_size = 2048\<rparr>]
       \<lparr>files = [], error = []\<rparr>) =
     [\<lparr>file_name = ''cell.png'', file_type = ''image/png'', file_size = 52428800\<rparr>,
      \<lparr>file_name = ''smear.tiff'', file_type = ''image/tiff'', file_size = 2048\<rparr>]"
  using validator_accepts_iff_type_and_size
    [of "[\<lparr>file_name = ''scan.gif'', file_type = ''image/gif'', file_size = 1024\<rparr>,
        \<lparr>file_name = ''cell.png'', file_type = ''image/png'', file_size = 52428800\<rparr>,
        \<lparr>file_name = ''big.jpg'', file_type = ''image/jpeg'', file_size = 52428801\<rparr>,
        \<lparr>file_name = ''smear.tiff'', file_type = ''image/tiff'', file_size = 2048\<rparr>]"
       "\<lparr>files = [], error = []\<rparr>"]
  by simp

text \<open>
  The claim C9 as written (after a batch containing at least one rejected file the
  surfaced reason is that of the last rejected file) fails on a batch that also
  contains an accepted file: the handler ends with \<^verbatim>\<open>setError('')\<close> whenever
  \<^verbatim>\<open>validFiles\<close> is not empty, so no reason is left.
\<close>

theorem rejection_reason_cleared_counterexample:
  "error (handleFileChange
       [\<lparr>file_name = ''scan.gif'', file_type = ''image/gif'', file_size = 1024\<rparr>,
        \<lparr>file_name = ''cell.png'', file_type = ''image/png'', file_size = 1024\<rparr>]
       \<lparr>files = [], error = []\<rparr>) = [] \<and>
   rejection_reason \<lparr>file_name = ''scan.gif'', file_type = ''image/gif'', file_size = 1024\<rparr> =
     ''scan.gif: Invalid file type. Only JPG, PNG, or TIFF allowed.''"
  by (simp add: handleFileChange_def validTypes_def maxSize_def rejection_reason_def
      invalid_type_message_def)

text \<open>
  C9, amended. Every rejected file sets a reason that starts with its file name, and
  inside the loop each reason overwrites the one before: after the loop over a batch
  with at least one rejected file, the single \<^verbatim>\<open>error\<close> is the reason of the last
  rejected file. When no file of the batch is accepted, this is the reason the handler
  leaves.
\<close>

theorem rejection_reason_after_batch:
  assumes "filter (\<lambda>f. \<not> accepted f) selectedFiles \<noteq> []"
  shows "error (snd (validate_loop selectedFiles [] st)) =
           rejection_reason (last (filter (\<lambda>f. \<not> accepted f) selectedFiles)) \<and>
         (filter accepted selectedFiles = [] \<longrightarrow>
            error (handleFileChange selectedFiles st) =
              rejection_reason (last (filter (\<lambda>f. \<not> accepted f) selectedFiles))) \<and>
         rejection_reason (last (filter (\<lambda>f. \<not> accepted f) selectedFiles)) =
           file_name (last (filter (\<lambda>f. \<not> accepted f) selectedFiles)) @
           (if file_type (last (filter (\<lambda>f. \<not> accepted f) selectedFiles)) \<notin> set validTypes
              then '': Invalid file type. Only JPG, PNG, or TIFF allowed.''
            else '': File size must be less than 50MB'')"
proof -
  let ?rejected = "filter (\<lambda>f. \<not> accepted f) selectedFiles"
  obtain vs st1 where loop: "validate_loop selectedFiles [] st = (vs, st1)"
    by (cases "validate_loop selectedFiles [] st")
  have vs: "vs = filter accepted selectedFiles"
    using validate_loop_valid [of selectedFiles "[]" st] loop by simp
  have after_loop: "error (snd (validate_loop selectedFiles [] st)) = rejection_reason (last ?rejected)"
    using assms validate_loop_error [of selectedFiles "[]" st]
    by (simp split: list.splits)
  have nonempty: "selectedFiles \<noteq> []"
    using assms by auto
  have handler: "filter accepted selectedFiles = [] \<longrightarrow>
      error (handleFileChange selectedFiles st) = rejection_reason (last ?rejected)"
    using after_loop nonempty by (simp add: handleFileChange_def loop vs)
  have keyed: "rejection_reason (last ?rejected) =
      file_name (last ?rejected) @
      (if file_type (last ?rejected) \<notin> set validTypes
         then '': Invalid file type. Only JPG, PNG, or TIFF allowed.''
       else '': File size must be less than 50MB'')"
    by (simp add: rejection_reason_def invalid_type_message_def too_large_message_def)
  show ?thesis
    using after_loop handler keyed by blast
qed

text \<open>
  A batch of two rejected files, the first for its type and the second for its size:
  the reason left is the one of the second.
\<close>

theorem rejection_reason_after_batch_witness:
  "error (handleFileChange
       [\<lparr>file_name = ''scan.gif'', file_type = ''image/gif'', file_size = 1024\<rparr>,
        \<lparr>file_name = ''big.jpg'', file_type = ''image/jpeg'', file_size = 52428801\<rparr>]
       \<lparr>files = [], error = []\<rparr>) =
     ''big.jpg: File size must be less than 50MB''"
  using rejection_reason_after_batch
    [of "[\<lparr>file_name = ''scan.gif'', file_type = ''image/gif'', file_size = 1024\<rparr>,
          \<lparr>file_name = ''big.jpg'', file_type = ''image/jpeg'', file_size = 52428801\<rparr>]"
        "\<lparr>files = [], error = []\<rparr>"]
  by (simp add: accepted_def validTypes_def maxSize_def)

section \<open>The Upload Orchestrator\<close>

text \<open>
  C2. An upload request with zero images or with an absent (missing or empty)
  \<^verbatim>\<open>patientId\<close> leaves the store as it was, so that no Job and no Patient record is
  created or updated, and the authenticated caller receives the 400 response of the
  validation guard.
\<close>

theorem upload_validation_rejects_without_write:
  assumes "allImages form = [] \<or> \<not> truthy (f_patientId form)"
  shows "snd (POST_upload auth form uuid now env fetch s) = s \<and>
         (\<forall>userId. auth = Auth_User userId \<longrightarrow>
            fst (POST_upload auth form uuid now env fetch s) =
              Response 400 [] (Message ''At least one image and patient ID are required''))"
  using assms
  by (auto simp: POST_upload_def Let_def truthy_def split: auth_result.splits option.splits)

text \<open>
  Two requests on a store that holds a patient: one with a \<^verbatim>\<open>patientId\<close> and no image,
  one with an image and an empty \<^verbatim>\<open>patientId\<close>.
\<close>

theorem upload_validation_rejects_without_write_witness:
  "POST_upload (Auth_User ''lab1'')
     \<lparr>images = [], image = None, f_patientId = Some ''P1'',
      f_name = Some ''Jane Doe'', f_age = Some ''34''\<rparr>
     ''job-1'' 0 None (\<lambda>url form. Analyze_Ok)
     \<lparr>jobs = [], patients = [\<lparr>p_patientId = ''P1'', p_name = Some ''Jane'', p_age = Some ''33'',
                               p_labId = ''lab1''\<rparr>]\<rparr> =
     (Response 400 [] (Message ''At least one image and patient ID are required''),
      \<lparr>jobs = [], patients = [\<lparr>p_patientId = ''P1'', p_name = Some ''Jane'', p_age = Some ''33'',
                               p_labId = ''lab1''\<rparr>]\<rparr>) \<and>
   POST_upload (Auth_User ''lab1'')
     \<lparr>images = [Blob ''cell.png''], image = None, f_patientId = Some [],
      f_name = Some ''Jane Doe'', f_age = Some ''34''\<rparr>
     ''job-1'' 0 None (\<lambda>url form. Analyze_Ok)
     \<lparr>jobs = [], patients = []\<rparr> =
     (Response 400 [] (Message ''At least one image and patient ID are required''),
      \<lparr>jobs = [], patients = []\<rparr>)"
  using
    upload_validation_rejects_without_write
      [where form = "\<lparr>images = [], image = None, f_patientId = Some ''P1'',
                      f_name = Some ''Jane Doe'', f_age = Some ''34''\<rparr>"
         and auth = "Auth_User ''lab1''" and uuid = "''job-1''" and now = 0 and env = None
         and fetch = "\<lambda>url form. Analyze_Ok"
         and s = "\<lparr>jobs = [], patients = [\<lparr>p_patientId = ''P1'', p_name = Some ''Jane'',
                                             p_age = Some ''33'', p_labId = ''lab1''\<rparr>]\<rparr>"]
    upload_validation_rejects_without_write
      [where form = "\<lparr>images = [Blob ''cell.png''], image = None, f_patientId = Some [],
                      f_name = Some ''Jane Doe'', f_age = Some ''34''\<rparr>"
         and auth = "Auth_User ''lab1''" and uuid = "''job-1''" and now = 0 and env = None
         and fetch = "\<lambda>url form. Analyze_Ok"
         and s = "\<lparr>jobs = [], patients = []\<rparr>"]
  by (simp add: allImages_def truthy_def prod_eq_iff)

text \<open>
  C5. A valid upload by an authenticated caller, under a fresh job id, adds exactly one
  Job record: the job list grows by one record at its end, with the new job id,
  progress 0 and \<^verbatim>\<open>totalImages\<close> the number of submitted images, which is the number
  of entries of the form under \<^verbatim>\<open>images\<close> or, when there is none, 1 for the legacy
  single \<^verbatim>\<open>image\<close>. Exactly one Patient record keyed by the \<^verbatim>\<open>patientId\<close> is written:
  the lookup by that key yields the submitted fields, every record under another key is
  as before, and the collection grows by one only when the key was new. When the
  inference service accepts the forward call, the new job is stored with status PENDING
  and the response carries the job id, PENDING and the image count.
\<close>

theorem upload_creates_one_pending_job:
  assumes "images form \<noteq> [] \<or> truthy_value (image form)"
      and "f_patientId form = Some pid"
      and "pid \<noteq> []"
      and "uuid \<notin> jobId ` set (jobs s)"
  shows
    "(fetch (ML_BACKEND_URL env @ ''/api/analyze'')
        (mlFormData (allImages form) uuid pid (f_name form) (f_age form) uid) = Analyze_Ok \<longrightarrow>
        fst (POST_upload (Auth_User uid) form uuid now env fetch s) =
          Response 200 []
            (Upload_Receipt uuid PENDING (if images form = [] then 1 else length (images form))
               (show_nat (if images form = [] then 1 else length (images form)) @
                '' image(s) uploaded, ML processing started'')) \<and>
        jobs (snd (POST_upload (Auth_User uid) form uuid now env fetch s)) =
          jobs s @
          [\<lparr>jobId = uuid, patientId = pid, labId = uid, status = PENDING, progress = 0,
            totalImages = (if images form = [] then 1 else length (images form)),
            result = None, createdAt = now\<rparr>]) \<and>
     length (jobs (snd (POST_upload (Auth_User uid) form uuid now env fetch s))) =
       length (jobs s) + 1 \<and>
     butlast (jobs (snd (POST_upload (Auth_User uid) form uuid now env fetch s))) = jobs s \<and>
     jobId (last (jobs (snd (POST_upload (Auth_User uid) form uuid now env fetch s)))) = uuid \<and>
     progress (last (jobs (snd (POST_upload (Auth_User uid) form uuid now env fetch s)))) = 0 \<and>
     totalImages (last (jobs (snd (POST_upload (Auth_User uid) form uuid now env fetch s)))) =
       (if images form = [] then 1 else length (images form)) \<and>
     Patient_findOne pid (patients (snd (POST_upload (Auth_User uid) form uuid now env fetch s))) =
       Some \<lparr>p_patientId = pid, p_name = f_name form, p_age = f_age form, p_labId = uid\<rparr> \<and>
     filter (\<lambda>p. p_patientId p \<noteq> pid)
         (patients (snd (POST_upload (Auth_User uid) form uuid now env fetch s))) =
       filter (\<lambda>p. p_patientId p \<noteq> pid) (patients s) \<and>
     length (patients (snd (POST_upload (Auth_User uid) form uuid now env fetch s))) =
       (if pid \<in> p_patientId ` set (patients s) then length (patients s) else length (patients s) + 1)"
proof -
  have some: "allImages form \<noteq> []"
    using assms(1) by (rule allImages_count(1))
  have count: "length (allImages form) = (if images form = [] then 1 else length (images form))"
    using assms(1) by (rule allImages_count(2))
  show ?thesis
    using POST_upload_valid_shape
      [where form = form and pid = pid and uuid = uuid and s = s and fetch = fetch
         and env = env and uid = uid and now = now]
      some assms(2-4)
    unfolding count by blast
qed

text \<open>
  Two accepted uploads on the empty store. The first is the scenario of the
  specification, \<^verbatim>\<open>{patientId: "P1", name: "Jane Doe", age: 34}\<close>, here with three
  files under \<^verbatim>\<open>images\<close>; the second sends one file under the legacy field \<^verbatim>\<open>image\<close>.
\<close>

theorem upload_creates_one_pending_job_witness:
  "POST_upload (Auth_User ''lab1'')
     \<lparr>images = [Blob ''a.png'', Blob ''b.png'', Blob ''c.png''], image = None,
      f_patientId = Some ''P1'', f_name = Some ''Jane Doe'', f_age = Some ''34''\<rparr>
     ''job-1'' 0 None (\<lambda>url form. Analyze_Ok)
     \<lparr>jobs = [], patients = []\<rparr> =
     (Response 200 []
        (Upload_Receipt ''job-1'' PENDING 3 ''3 image(s) uploaded, ML processing started''),
      \<lparr>jobs = [\<lparr>jobId = ''job-1'', patientId = ''P1'', labId = ''lab1'', status = PENDING,
                progress = 0, totalImages = 3, result = None, createdAt = 0\<rparr>],
       patients = [\<lparr>p_patientId = ''P1'', p_name = Some ''Jane Doe'', p_age = Some ''34'',
                    p_labId = ''lab1''\<rparr>]\<rparr>) \<and>
   POST_upload (Auth_User ''lab1'')
     \<lparr>images = [], image = Some (Blob ''cell.png''),
      f_patientId = Some ''P1'', f_name = Some ''Jane Doe'', f_age = Some ''34''\<rparr>
     ''job-2'' 0 None (\<lambda>url form. Analyze_Ok)
     \<lparr>jobs = [], patients = []\<rparr> =
     (Response 200 []
        (Upload_Receipt ''job-2'' PENDING 1 ''1 image(s) uploaded, ML processing started''),
      \<lparr>jobs = [\<lparr>jobId = ''job-2'', patientId = ''P1'', labId = ''lab1'', status = PENDING,
                progress = 0, totalImages = 1, result = None, createdAt = 0\<rparr>],
       patients = [\<lparr>p_patientId = ''P1'', p_name = Some ''Jane Doe'', p_age = Some ''34'',
                    p_labId = ''lab1''\<rparr>]\<rparr>)"
  using
    upload_creates_one_pending_job
      [where form = "\<lparr>images = [Blob ''a.png'', Blob ''b.png'', Blob ''c.png''], image = None,
                      f_patientId = Some ''P1'', f_name = Some ''Jane Doe'',
                      f_age = Some ''34''\<rparr>"
         and pid = "''P1''" and uuid = "''job-1''" and uid = "''lab1''" and now = 0 and env = None
         and fetch = "\<lambda>url form. Analyze_Ok" and s = "\<lparr>jobs = [], patients = []\<rparr>"]
    upload_creates_one_pending_job
      [where form = "\<lparr>images = [], image = Some (Blob ''cell.png''),
                      f_patientId = Some ''P1'', f_name = Some ''Jane Doe'',
                      f_age = Some ''34''\<rparr>"
         and pid = "''P1''" and uuid = "''job-2''" and uid = "''lab1''" and now = 0 and env = None
         and fetch = "\<lambda>url form. Analyze_Ok" and s = "\<lparr>jobs = [], patients = []\<rparr>"]
  by (simp add: truthy_value_def)
     (simp add: POST_upload_def allImages_def truthy_def truthy_value_def Let_def Job_create_def
        show_nat.simps)

text \<open>
  The claim C1 as written (the \<^verbatim>\<open>message\<close> of the 500 response equals the stored
  \<^verbatim>\<open>result.error\<close>) fails: the \<^verbatim>\<open>message\<close> is the fixed text
  \<^verbatim>\<open>Failed to start ML processing\<close>, while the inference service's detail is stored
  in the job.
\<close>

theorem upload_failure_message_counterexample:
  "message_of (fst (POST_upload (Auth_User ''lab1'')
     \<lparr>images = [Blob ''cell.png''], image = None, f_patientId = Some ''P1'',
      f_name = Some ''Jane Doe'', f_age = Some ''34''\<rparr>
     ''job-1'' 0 None (\<lambda>url form. Analyze_Not_Ok (Body_Json (Js_String ''Model not loaded'')))
     \<lparr>jobs = [], patients = []\<rparr>)) =
     Some ''Failed to start ML processing'' \<and>
   Option.bind
     (Option.bind
        (Job_findOne ''job-1'' ''lab1'' (jobs (snd (POST_upload (Auth_User ''lab1'')
     \<lparr>images = [Blob ''cell.png''], image = None, f_patientId = Some ''P1'',
      f_name = Some ''Jane Doe'', f_age = Some ''34''\<rparr>
     ''job-1'' 0 None (\<lambda>url form. Analyze_Not_Ok (Body_Json (Js_String ''Model not loaded'')))
     \<lparr>jobs = [], patients = []\<rparr>))))
        result)
     result_error = Some ''Model not loaded''"
  by (simp add: POST_upload_def allImages_def truthy_def Let_def js_or_def Job_create_def
      Job_findOne_def)

text \<open>
  C1, amended. For a valid upload by an authenticated caller under a fresh job id, if the
  forward call to the inference service fails (the call is rejected or the response is
  not 2xx), the Job created for the request is stored with status FAILED and the error
  message in \<^verbatim>\<open>result.error\<close>, and the caller receives a 500 response whose \<^verbatim>\<open>error\<close>
  field equals the stored \<^verbatim>\<open>result.error\<close>; its \<^verbatim>\<open>message\<close> is the fixed text
  \<^verbatim>\<open>Failed to start ML processing\<close>.
\<close>

theorem upload_failure_marks_job_failed:
  assumes "allImages form \<noteq> []"
      and "f_patientId form = Some pid"
      and "pid \<noteq> []"
      and "uuid \<notin> jobId ` set (jobs s)"
      and "fetch (ML_BACKEND_URL env @ ''/api/analyze'')
             (mlFormData (allImages form) uuid pid (f_name form) (f_age form) uid) \<noteq> Analyze_Ok"
  shows "http_status (fst (POST_upload (Auth_User uid) form uuid now env fetch s)) = 500 \<and>
         message_of (fst (POST_upload (Auth_User uid) form uuid now env fetch s)) =
           Some ''Failed to start ML processing'' \<and>
         error_of (fst (POST_upload (Auth_User uid) form uuid now env fetch s)) \<noteq> None \<and>
         map_option status
           (Job_findOne uuid uid (jobs (snd (POST_upload (Auth_User uid) form uuid now env fetch s)))) =
           Some FAILED \<and>
         Option.bind
           (Option.bind
              (Job_findOne uuid uid (jobs (snd (POST_upload (Auth_User uid) form uuid now env fetch s))))
              result)
           result_error =
           error_of (fst (POST_upload (Auth_User uid) form uuid now env fetch s))"
proof -
  let ?r = "fetch (ML_BACKEND_URL env @ ''/api/analyze'')
        (mlFormData (allImages form) uuid pid (f_name form) (f_age form) uid)"
  obtain e where e: "forward_throws ?r = Some e"
    using assms(5) forward_throws_Some by blast
  have R: "POST_upload (Auth_User uid) form uuid now env fetch s =
     (Response 500 [] (Message_Error ''Failed to start ML processing'' e),
      \<lparr>jobs = jobs s @ [pending_job uuid pid uid (length (allImages form)) now
                          \<lparr>status := FAILED, result := Some (error_result e)\<rparr>],
       patients = Patient_findOneAndUpdate pid (f_name form) (f_age form) uid (patients s)\<rparr>)"
    using POST_upload_failed [where fetch = fetch and env = env and uuid = uuid and uid = uid
            and form = form and pid = pid and e = e and now = now and s = s]
        assms(1-3) e Job_findOneAndUpdate_fresh [OF assms(4)]
    by (simp add: pending_job_def)
  show ?thesis
    by (simp add: R Job_findOne_fresh [OF assms(4)])
       (simp add: Job_findOne_def pending_job_def error_result_def)
qed

text \<open>The inference service is unreachable: \<^verbatim>\<open>fetch\<close> rejects with \<^verbatim>\<open>fetch failed\<close>.\<close>

theorem upload_failure_marks_job_failed_witness:
  "(POST_upload (Auth_User ''lab1'')
     \<lparr>images = [Blob ''cell.png''], image = None, f_patientId = Some ''P1'',
      f_name = Some ''Jane Doe'', f_age = Some ''34''\<rparr>
     ''job-1'' 0 None (\<lambda>url form. Analyze_Rejected ''fetch failed'')
     \<lparr>jobs = [], patients = []\<rparr>) =
     (Response 500 [] (Message_Error ''Failed to start ML processing'' ''fetch failed''),
      \<lparr>jobs = [\<lparr>jobId = ''job-1'', patientId = ''P1'', labId = ''lab1'', status = FAILED,
                progress = 0, totalImages = 1, result = Some (error_result ''fetch failed''),
                createdAt = 0\<rparr>],
       patients = [\<lparr>p_patientId = ''P1'', p_name = Some ''Jane Doe'', p_age = Some ''34'',
                    p_labId = ''lab1''\<rparr>]\<rparr>)"
  using upload_failure_marks_job_failed
    [where form = "\<lparr>images = [Blob ''cell.png''], image = None, f_patientId = Some ''P1'',
      f_name = Some ''Jane Doe'', f_age = Some ''34''\<rparr>"
       and pid = "''P1''" and uuid = "''job-1''" and uid = "''lab1''" and now = 0 and env = None
       and fetch = "\<lambda>url form. Analyze_Rejected ''fetch failed''"
       and s = "\<lparr>jobs = [], patients = []\<rparr>"]
  by (simp add: allImages_def)
     (simp add: POST_upload_def allImages_def truthy_def Let_def Job_create_def error_result_def)

text \<open>
  C8. Starting from a Patient collection without duplicate keys, after any non-empty
  sequence of uploads that pass the token check and the validation guard and all name
  the same \<^verbatim>\<open>patientId\<close>, the collection holds exactly one record under that key, and
  its name, age and owner are those of the last upload of the sequence.
\<close>

theorem patient_upsert_last_write_wins:
  assumes "distinct (map p_patientId (patients s))"
      and "rqs \<noteq> []"
      and "\<forall>rq \<in> set rqs. passes_validation rq \<and> f_patientId (rq_form rq) = Some pid"
      and "rq_auth (last rqs) = Auth_User owner"
  shows "filter (\<lambda>p. p_patientId p = pid) (patients (run_uploads rqs s)) =
           [\<lparr>p_patientId = pid,
             p_name = f_name (rq_form (last rqs)),
             p_age = f_age (rq_form (last rqs)),
             p_labId = owner\<rparr>]"
  using assms
proof (induction rqs arbitrary: s)
  case Nil
  then show ?case by simp
next
  case (Cons rq rqs)
  have rq: "passes_validation rq" "f_patientId (rq_form rq) = Some pid"
    using Cons.prems(3) by simp_all
  then obtain uid where uid: "rq_auth rq = Auth_User uid"
    using passes_validation_user by blast
  have pats: "patients (snd (handle_upload rq s)) =
     Patient_findOneAndUpdate pid (f_name (rq_form rq)) (f_age (rq_form rq)) uid (patients s)"
    using rq uid by (rule handle_upload_patients)
  show ?case
  proof (cases "rqs = []")
    case True
    with Cons.prems(4) uid have "uid = owner" by simp
    with True show ?thesis
      using upsert_filter [OF Cons.prems(1)] by (simp add: pats)
  next
    case False
    have d: "distinct (map p_patientId (patients (snd (handle_upload rq s))))"
      unfolding pats using Cons.prems(1) by (rule upsert_distinct)
    have "filter (\<lambda>p. p_patientId p = pid)
            (patients (run_uploads rqs (snd (handle_upload rq s)))) =
           [\<lparr>p_patientId = pid,
             p_name = f_name (rq_form (last rqs)),
             p_age = f_age (rq_form (last rqs)),
             p_labId = owner\<rparr>]"
      using Cons.IH [OF d False] Cons.prems(3,4) False by simp
    with False show ?thesis by simp
  qed
qed

text \<open>
  Two uploads for \<^verbatim>\<open>P1\<close>, the first by \<^verbatim>\<open>lab1\<close> with name \<^verbatim>\<open>Jane Doe\<close> and age 34,
  the second by \<^verbatim>\<open>lab2\<close> with name \<^verbatim>\<open>Jane D.\<close> and age 35, on a store that already
  holds patient \<^verbatim>\<open>P2\<close>.
\<close>

theorem patient_upsert_last_write_wins_witness:
  "patients (run_uploads
     [\<lparr>rq_auth = Auth_User ''lab1'',
       rq_form = \<lparr>images = [Blob ''cell.png''], image = None, f_patientId = Some ''P1'',
                  f_name = Some ''Jane Doe'', f_age = Some ''34''\<rparr>,
       rq_uuid = ''job-1'', rq_now = 0, rq_env = None, rq_fetch = (\<lambda>url form. Analyze_Ok)\<rparr>,
      \<lparr>rq_auth = Auth_User ''lab2'',
       rq_form = \<lparr>images = [], image = Some (Blob ''cell2.png''), f_patientId = Some ''P1'',
                  f_name = Some ''Jane D.'', f_age = Some ''35''\<rparr>,
       rq_uuid = ''job-2'', rq_now = 1, rq_env = None,
       rq_fetch = (\<lambda>url form. Analyze_Rejected ''fetch failed'')\<rparr>]
     \<lparr>jobs = [],
      patients = [\<lparr>p_patientId = ''P2'', p_name = Some ''John Roe'', p_age = Some ''51'',
                   p_labId = ''lab1''\<rparr>]\<rparr>) =
     [\<lparr>p_patientId = ''P2'', p_name = Some ''John Roe'', p_age = Some ''51'', p_labId = ''lab1''\<rparr>,
      \<lparr>p_patientId = ''P1'', p_name = Some ''Jane D.'', p_age = Some ''35'', p_labId = ''lab2''\<rparr>]"
  using patient_upsert_last_write_wins
    [where pid = "''P1''" and owner = "''lab2''"
       and s = "\<lparr>jobs = [],
                  patients = [\<lparr>p_patientId = ''P2'', p_name = Some ''John Roe'',
                               p_age = Some ''51'', p_labId = ''lab1''\<rparr>]\<rparr>"
       and rqs = "[\<lparr>rq_auth = Auth_User ''lab1'',
       rq_form = \<lparr>images = [Blob ''cell.png''], image = None, f_patientId = Some ''P1'',
                  f_name = Some ''Jane Doe'', f_age = Some ''34''\<rparr>,
       rq_uuid = ''job-1'', rq_now = 0, rq_env = None, rq_fetch = (\<lambda>url form. Analyze_Ok)\<rparr>,
      \<lparr>rq_auth = Auth_User ''lab2'',
       rq_form = \<lparr>images = [], image = Some (Blob ''cell2.png''), f_patientId = Some ''P1'',
                  f_name = Some ''Jane D.'', f_age = Some ''35''\<rparr>,
       rq_uuid = ''job-2'', rq_now = 1, rq_env = None,
       rq_fetch = (\<lambda>url form. Analyze_Rejected ''fetch failed'')\<rparr>]"]
  by (simp add: passes_validation_def allImages_def truthy_def truthy_value_def)
     (simp add: handle_upload_def POST_upload_def allImages_def truthy_def truthy_value_def
        Let_def Job_create_def)

section \<open>The Status Poller and the Report Retriever\<close>

text \<open>
  C3. A status query by a caller for a job id under which the store holds no job owned by
  that caller is answered 404 with one fixed message. The answer is the same for any two
  stores without such a job, whether the job does not exist at all or exists under
  another owner, so the answer tells a non-owner nothing about the job. The report route
  applies the same lookup.
\<close>

theorem status_not_found_conflates_ownership:
  assumes "\<forall>j \<in> set (jobs s). \<not> (jobId j = jid \<and> labId j = caller)"
      and "\<forall>j \<in> set (jobs s'). \<not> (jobId j = jid \<and> labId j = caller)"
  shows "GET_status (Auth_User caller) jid s =
           Response 404 [] (Message ''Job not found or access denied'') \<and>
         GET_status (Auth_User caller) jid s' = GET_status (Auth_User caller) jid s \<and>
         GET_report (Auth_User caller) jid env fetch s =
           Response 404 [] (Message ''Report not found or access denied'') \<and>
         GET_report (Auth_User caller) jid env fetch s' = GET_report (Auth_User caller) jid env fetch s"
proof -
  have "Job_findOne jid caller (jobs s) = None" "Job_findOne jid caller (jobs s') = None"
    using assms by (simp_all add: Job_findOne_None)
  then show ?thesis
    by (simp add: GET_status_def GET_report_def)
qed

text \<open>
  The caller \<^verbatim>\<open>lab1\<close> asks for \<^verbatim>\<open>job-1\<close>: on the empty store, and on a store where
  \<^verbatim>\<open>job-1\<close> is a completed job of \<^verbatim>\<open>lab2\<close>. Both answers are the same 404.
\<close>

theorem status_not_found_conflates_ownership_witness:
  "GET_status (Auth_User ''lab1'') ''job-1'' \<lparr>jobs = [], patients = []\<rparr> =
     Response 404 [] (Message ''Job not found or access denied'') \<and>
   GET_status (Auth_User ''lab1'') ''job-1''
     \<lparr>jobs = [\<lparr>jobId = ''job-1'', patientId = ''P1'', labId = ''lab2'', status = COMPLETED,
               progress = 100, totalImages = 1, result = Some (error_result []),
               createdAt = 0\<rparr>],
      patients = []\<rparr> =
     GET_status (Auth_User ''lab1'') ''job-1'' \<lparr>jobs = [], patients = []\<rparr>"
  using status_not_found_conflates_ownership
    [where s = "\<lparr>jobs = [], patients = []\<rparr>"
       and s' = "\<lparr>jobs = [\<lparr>jobId = ''job-1'', patientId = ''P1'', labId = ''lab2'',
                            status = COMPLETED, progress = 100, totalImages = 1,
                            result = Some (error_result []), createdAt = 0\<rparr>],
                  patients = []\<rparr>"
       and jid = "''job-1''" and caller = "''lab1''"]
  by simp

text \<open>
  C4. For a job the caller owns, the report route answers 400 \<^verbatim>\<open>Report not ready yet\<close>
  whenever the status is not COMPLETED. When the status is COMPLETED and the PDF
  endpoint of the inference service delivers bytes, the response body is exactly these
  bytes and the \<^verbatim>\<open>Content-Disposition\<close> header is
  \<^verbatim>\<open>attachment; filename=cytomind_report_{jobId}.pdf\<close>, provided this text is a legal
  header value. It is one for every job id made of the characters of a UUID
  (hexadecimal digits and hyphens), which are the ids the upload route generates.
\<close>

theorem report_not_ready_or_pdf_bytes:
  assumes "Job_findOne jid caller (jobs s) = Some j"
  shows "(status j \<noteq> COMPLETED \<longrightarrow>
            GET_report (Auth_User caller) jid env fetch s =
              Response 400 [] (Message ''Report not ready yet'')) \<and>
         (status j = COMPLETED \<longrightarrow>
            fetch (ML_BACKEND_URL env @ ''/api/reports/'' @ jid @ ''/pdf'') = Pdf_Bytes pdf \<longrightarrow>
            legal_header_value (''attachment; filename=cytomind_report_'' @ jid @ ''.pdf'') \<longrightarrow>
            GET_report (Auth_User caller) jid env fetch s =
              Response 200
                [(''Content-Type'', ''application/pdf''),
                 (''Content-Disposition'', ''attachment; filename=cytomind_report_'' @ jid @ ''.pdf'')]
                (Bytes pdf)) \<and>
         (set jid \<subseteq> set ''0123456789abcdef-'' \<longrightarrow>
            legal_header_value (''attachment; filename=cytomind_report_'' @ jid @ ''.pdf''))"
proof (intro conjI impI)
  assume "status j \<noteq> COMPLETED"
  with assms show "GET_report (Auth_User caller) jid env fetch s =
      Response 400 [] (Message ''Report not ready yet'')"
    by (simp add: GET_report_def)
next
  assume "status j = COMPLETED"
    and "fetch (ML_BACKEND_URL env @ ''/api/reports/'' @ jid @ ''/pdf'') = Pdf_Bytes pdf"
    and "legal_header_value (''attachment; filename=cytomind_report_'' @ jid @ ''.pdf'')"
  with assms show "GET_report (Auth_User caller) jid env fetch s =
      Response 200
        [(''Content-Type'', ''application/pdf''),
         (''Content-Disposition'', ''attachment; filename=cytomind_report_'' @ jid @ ''.pdf'')]
        (Bytes pdf)"
    by (simp add: GET_report_def)
next
  assume "set jid \<subseteq> set ''0123456789abcdef-''"
  then show "legal_header_value (''attachment; filename=cytomind_report_'' @ jid @ ''.pdf'')"
    by (rule uuid_disposition_legal)
qed

text \<open>
  The same job of \<^verbatim>\<open>lab1\<close>, once PROCESSING and once COMPLETED, under a job id of the
  shape \<^verbatim>\<open>randomUUID()\<close> returns, with an inference service that serves the four bytes
  \<^verbatim>\<open>%PDF\<close> under the URL of the job's report.
\<close>

theorem report_not_ready_or_pdf_bytes_witness:
  "GET_report (Auth_User ''lab1'') ''3f2b8c1e-7a4d-4e9b-9c0a-5d6e7f8a9b0c'' None
     (\<lambda>url. if url = ''http://127.0.0.1:8000/api/reports/3f2b8c1e-7a4d-4e9b-9c0a-5d6e7f8a9b0c/pdf''
             then Pdf_Bytes [0x25, 0x50, 0x44, 0x46] else Pdf_Not_Ok None)
     \<lparr>jobs = [\<lparr>jobId = ''3f2b8c1e-7a4d-4e9b-9c0a-5d6e7f8a9b0c'', patientId = ''P1'',
               labId = ''lab1'', status = PROCESSING, progress = 40, totalImages = 1,
               result = None, createdAt = 0\<rparr>],
      patients = []\<rparr> =
     Response 400 [] (Message ''Report not ready yet'') \<and>
   GET_report (Auth_User ''lab1'') ''3f2b8c1e-7a4d-4e9b-9c0a-5d6e7f8a9b0c'' None
     (\<lambda>url. if url = ''http://127.0.0.1:8000/api/reports/3f2b8c1e-7a4d-4e9b-9c0a-5d6e7f8a9b0c/pdf''
             then Pdf_Bytes [0x25, 0x50, 0x44, 0x46] else Pdf_Not_Ok None)
     \<lparr>jobs = [\<lparr>jobId = ''3f2b8c1e-7a4d-4e9b-9c0a-5d6e7f8a9b0c'', patientId = ''P1'',
               labId = ''lab1'', status = COMPLETED, progress = 100, totalImages = 1,
               result = None, createdAt = 0\<rparr>],
      patients = []\<rparr> =
     Response 200
       [(''Content-Type'', ''application/pdf''),
        (''Content-Disposition'',
         ''attachment; filename=cytomind_report_3f2b8c1e-7a4d-4e9b-9c0a-5d6e7f8a9b0c.pdf'')]
       (Bytes [0x25, 0x50, 0x44, 0x46])"
  using
    report_not_ready_or_pdf_bytes
      [where jid = "''3f2b8c1e-7a4d-4e9b-9c0a-5d6e7f8a9b0c''" and caller = "''lab1''" and env = None
         and fetch = "\<lambda>url. if url = ''http://127.0.0.1:8000/api/reports/3f2b8c1e-7a4d-4e9b-9c0a-5d6e7f8a9b0c/pdf''
             then Pdf_Bytes [0x25, 0x50, 0x44, 0x46] else Pdf_Not_Ok None"
         and pdf = "[0x25, 0x50, 0x44, 0x46]"
         and j = "\<lparr>jobId = ''3f2b8c1e-7a4d-4e9b-9c0a-5d6e7f8a9b0c'', patientId = ''P1'',
               labId = ''lab1'', status = PROCESSING, progress = 40, totalImages = 1,
               result = None, createdAt = 0\<rparr>"
         and s = "\<lparr>jobs = [\<lparr>jobId = ''3f2b8c1e-7a4d-4e9b-9c0a-5d6e7f8a9b0c'', patientId = ''P1'',
               labId = ''lab1'', status = PROCESSING, progress = 40, totalImages = 1,
               result = None, createdAt = 0\<rparr>],
                  patients = []\<rparr>"]
    report_not_ready_or_pdf_bytes
      [where jid = "''3f2b8c1e-7a4d-4e9b-9c0a-5d6e7f8a9b0c''" and caller = "''lab1''" and env = None
         and fetch = "\<lambda>url. if url = ''http://127.0.0.1:8000/api/reports/3f2b8c1e-7a4d-4e9b-9c0a-5d6e7f8a9b0c/pdf''
             then Pdf_Bytes [0x25, 0x50, 0x44, 0x46] else Pdf_Not_Ok None"
         and pdf = "[0x25, 0x50, 0x44, 0x46]"
         and j = "\<lparr>jobId = ''3f2b8c1e-7a4d-4e9b-9c0a-5d6e7f8a9b0c'', patientId = ''P1'',
               labId = ''lab1'', status = COMPLETED, progress = 100, totalImages = 1,
               result = None, createdAt = 0\<rparr>"
         and s = "\<lparr>jobs = [\<lparr>jobId = ''3f2b8c1e-7a4d-4e9b-9c0a-5d6e7f8a9b0c'', patientId = ''P1'',
               labId = ''lab1'', status = COMPLETED, progress = 100, totalImages = 1,
               result = None, createdAt = 0\<rparr>],
                  patients = []\<rparr>"]
  by (simp add: Job_findOne_def ML_BACKEND_URL_def or_else_def)

text \<open>
  C10. A status query on a job the caller owns, whose status is COMPLETED and whose
  result is present, succeeds also when the store holds no Patient record for the job's
  \<^verbatim>\<open>patientId\<close>: the response is 200 and carries the report, with \<^verbatim>\<open>patientName\<close> and
  \<^verbatim>\<open>age\<close> set to \<^verbatim>\<open>N/A\<close> and the other fields taken from the job and its result.
\<close>

theorem status_report_patient_fallback:
  assumes "Job_findOne jid caller (jobs s) = Some j"
      and "status j = COMPLETED"
      and "result j = Some res"
      and "Patient_findOne (patientId j) (patients s) = None"
  shows "GET_status (Auth_User caller) jid s =
           Response 200 []
             (Status
                \<lparr>s_jobId = jobId j, s_status = COMPLETED, s_progress = progress j,
                 s_report = Some
                   \<lparr>r_jobId = jobId j,
                    r_patientId = patientId j,
                    r_patientName = ''N/A'',
                    r_age = ''N/A'',
                    r_date = createdAt j,
                    r_classification = classification res,
                    r_primaryClass = primaryClass res,
                    r_primaryClassFullName = primaryClassFullName res,
                    r_malignancyPercentage = malignancyPercentage res,
                    r_confidence = confidence res,
                    r_topPredictions = topPredictions res\<rparr>,
                 s_message = None\<rparr>)"
  using assms by (simp add: GET_status_def Let_def or_else_def or_zero_def)

text \<open>
  A completed job of \<^verbatim>\<open>lab1\<close> for patient \<^verbatim>\<open>P1\<close>, in a store whose only Patient record
  is \<^verbatim>\<open>P2\<close>.
\<close>

theorem status_report_patient_fallback_witness:
  "GET_status (Auth_User ''lab1'') ''job-1''
     \<lparr>jobs = [\<lparr>jobId = ''job-1'', patientId = ''P1'', labId = ''lab1'', status = COMPLETED,
               progress = 100, totalImages = 1,
               result = Some \<lparr>classification = Some ''MALIGNANT'', primaryClass = Some ''BLA'',
                              primaryClassFullName = Some ''Blast'',
                              malignancyPercentage = Some ''87.5'', confidence = Some ''0.93'',
                              topPredictions = None, result_error = None\<rparr>,
               createdAt = 7\<rparr>],
      patients = [\<lparr>p_patientId = ''P2'', p_name = Some ''John Roe'', p_age = Some ''51'',
                   p_labId = ''lab1''\<rparr>]\<rparr> =
     Response 200 []
       (Status
          \<lparr>s_jobId = ''job-1'', s_status = COMPLETED, s_progress = 100,
           s_report = Some
             \<lparr>r_jobId = ''job-1'', r_patientId = ''P1'', r_patientName = ''N/A'', r_age = ''N/A'',
              r_date = 7, r_classification = Some ''MALIGNANT'', r_primaryClass = Some ''BLA'',
              r_primaryClassFullName = Some ''Blast'', r_malignancyPercentage = Some ''87.5'',
              r_confidence = Some ''0.93'', r_topPredictions = None\<rparr>,
           s_message = None\<rparr>)"
  using status_report_patient_fallback
    [where jid = "''job-1''" and caller = "''lab1''"
       and j = "\<lparr>jobId = ''job-1'', patientId = ''P1'', labId = ''lab1'', status = COMPLETED,
               progress = 100, totalImages = 1,
               result = Some \<lparr>classification = Some ''MALIGNANT'', primaryClass = Some ''BLA'',
                              primaryClassFullName = Some ''Blast'',
                              malignancyPercentage = Some ''87.5'', confidence = Some ''0.93'',
                              topPredictions = None, result_error = None\<rparr>,
               createdAt = 7\<rparr>"
       and res = "\<lparr>classification = Some ''MALIGNANT'', primaryClass = Some ''BLA'',
                    primaryClassFullName = Some ''Blast'',
                    malignancyPercentage = Some ''87.5'', confidence = Some ''0.93'',
                    topPredictions = None, result_error = None\<rparr>"
       and s = "\<lparr>jobs = [\<lparr>jobId = ''job-1'', patientId = ''P1'', labId = ''lab1'', status = COMPLETED,
               progress = 100, totalImages = 1,
               result = Some \<lparr>classification = Some ''MALIGNANT'', primaryClass = Some ''BLA'',
                              primaryClassFullName = Some ''Blast'',
                              malignancyPercentage = Some ''87.5'', confidence = Some ''0.93'',
                              topPredictions = None, result_error = None\<rparr>,
               createdAt = 7\<rparr>],
      patients = [\<lparr>p_patientId = ''P2'', p_name = Some ''John Roe'', p_age = Some ''51'',
                   p_labId = ''lab1''\<rparr>]\<rparr>"]
  by (simp add: Job_findOne_def Patient_findOne_def)

section \<open>Failures of the inference service\<close>




end
